theory Spec2Isabelle
  imports Main
begin

unbundle bit_operations_syntax

section \<open>Library functions the program calls\<close>

subsection \<open>SHA-256 (\<^verbatim>\<open>crypto.createHash("sha256")\<close>), FIPS 180-4\<close>

text \<open>
  Strings are held as their UTF-8 bytes, one \<^typ>\<open>char\<close> per byte. The 32-bit words of
  the hash are integers below \<open>2 ^ 32\<close>; every addition is reduced modulo \<open>2 ^ 32\<close>.
  The round constants and the initial state are written in decimal.
\<close>

definition K256 :: "int list" where
  "K256 = [
    1116352408, 1899447441, 3049323471, 3921009573, 961987163, 1508970993,
    2453635748, 2870763221, 3624381080, 310598401, 607225278, 1426881987,
    1925078388, 2162078206, 2614888103, 3248222580, 3835390401, 4022224774,
    264347078, 604807628, 770255983, 1249150122, 1555081692, 1996064986,
    2554220882, 2821834349, 2952996808, 3210313671, 3336571891, 3584528711,
    113926993, 338241895, 666307205, 773529912, 1294757372, 1396182291,
    1695183700, 1986661051, 2177026350, 2456956037, 2730485921, 2820302411,
    3259730800, 3345764771, 3516065817, 3600352804, 4094571909, 275423344,
    430227734, 506948616, 659060556, 883997877, 958139571, 1322822218,
    1537002063, 1747873779, 1955562222, 2024104815, 2227730452, 2361852424,
    2428436474, 2756734187, 3204031479, 3329325298]"

definition H256 :: "int list" where
  "H256 = [
    1779033703, 3144134277, 1013904242, 2773480762, 1359893119, 2600822924,
    528734635, 1541459225]"

definition add32 :: "int \<Rightarrow> int \<Rightarrow> int" where
  "add32 x y = (x + y) mod 4294967296"

text \<open>Rotation to the right by \<open>k\<close> bits, given as \<open>p = 2 ^ k\<close>.\<close>

definition rotr :: "int \<Rightarrow> int \<Rightarrow> int" where
  "rotr p x = x div p + (x mod p) * (4294967296 div p)"

definition Ch :: "int \<Rightarrow> int \<Rightarrow> int \<Rightarrow> int" where
  "Ch x y z = (x AND y) XOR ((4294967295 - x) AND z)"

definition Maj :: "int \<Rightarrow> int \<Rightarrow> int \<Rightarrow> int" where
  "Maj x y z = (x AND y) XOR (x AND z) XOR (y AND z)"

definition bsig0 :: "int \<Rightarrow> int" where
  "bsig0 x = rotr 4 x XOR rotr 8192 x XOR rotr 4194304 x"

definition bsig1 :: "int \<Rightarrow> int" where
  "bsig1 x = rotr 64 x XOR rotr 2048 x XOR rotr 33554432 x"

definition ssig0 :: "int \<Rightarrow> int" where
  "ssig0 x = rotr 128 x XOR rotr 262144 x XOR x div 8"

definition ssig1 :: "int \<Rightarrow> int" where
  "ssig1 x = rotr 131072 x XOR rotr 524288 x XOR x div 1024"

definition be_bytes8 :: "int \<Rightarrow> int list" where
  "be_bytes8 n = map (\<lambda>k. (n div k) mod 256)
     [72057594037927936, 281474976710656, 1099511627776, 4294967296, 16777216, 65536, 256, 1]"

definition pad :: "int list \<Rightarrow> int list" where
  "pad bs = bs @ [128] @ replicate (nat ((119 - int (length bs) mod 64) mod 64)) 0
               @ be_bytes8 (8 * int (length bs))"

fun words_of :: "int list \<Rightarrow> int list" where
  "words_of (a # b # c # d # r) = (((a * 256 + b) * 256 + c) * 256 + d) # words_of r"
| "words_of _ = []"

text \<open>The message schedule, newest word first: \<open>ws ! 1\<close> is \<open>W[t-2]\<close>, \<open>ws ! 15\<close> is \<open>W[t-16]\<close>.\<close>

fun sched :: "nat \<Rightarrow> int list \<Rightarrow> int list" where
  "sched 0 ws = ws"
| "sched (Suc n) ws =
     sched n (add32 (add32 (ssig1 (ws ! 1)) (ws ! 6)) (add32 (ssig0 (ws ! 14)) (ws ! 15)) # ws)"

definition step :: "int \<Rightarrow> int \<Rightarrow> int list \<Rightarrow> int list" where
  "step t1 t2 s = [add32 t1 t2, s ! 0, s ! 1, s ! 2, add32 (s ! 3) t1, s ! 4, s ! 5, s ! 6]"

fun rounds :: "int list \<Rightarrow> int list \<Rightarrow> int list \<Rightarrow> int list" where
  "rounds (k # ks) (w # ws) s =
     rounds ks ws
       (step (add32 (add32 (add32 (s ! 7) (bsig1 (s ! 4))) (Ch (s ! 4) (s ! 5) (s ! 6))) (add32 k w))
             (add32 (bsig0 (s ! 0)) (Maj (s ! 0) (s ! 1) (s ! 2))) s)"
| "rounds _ _ s = s"

definition compress :: "int list \<Rightarrow> int list \<Rightarrow> int list" where
  "compress s blk = map2 add32 s (rounds K256 (rev (sched 48 (rev blk))) s)"

fun blocks :: "int list \<Rightarrow> int list \<Rightarrow> int list" where
  "blocks s ws = (if length ws < 16 then s else blocks (compress s (take 16 ws)) (drop 16 ws))"

declare blocks.simps [simp del]

definition hexdigit :: "int \<Rightarrow> char" where
  "hexdigit n = (if n < 10 then char_of (48 + n) else char_of (87 + n))"

definition hex_u32 :: "int \<Rightarrow> string" where
  "hex_u32 w = map (\<lambda>k. hexdigit ((w div k) mod 16))
     [268435456, 16777216, 1048576, 65536, 4096, 256, 16, 1]"

text \<open>\<^verbatim>\<open>crypto.createHash("sha256").update(s, "utf8").digest("hex")\<close>\<close>

definition sha256Hex :: "string \<Rightarrow> string" where
  "sha256Hex s = concat (map hex_u32 (blocks H256 (words_of (pad (map of_char s)))))"

subsection \<open>Numbers and dates as JavaScript prints them\<close>

definition digit_char :: "int \<Rightarrow> char" where
  "digit_char n = char_of (48 + n)"

function digits_of :: "int \<Rightarrow> string" where
  "digits_of n = (if n < 10 then [digit_char n] else digits_of (n div 10) @ [digit_char (n mod 10)])"
  by pat_completeness auto
termination
  by (relation "measure nat") auto

declare digits_of.simps [simp del]

definition show_int :: "int \<Rightarrow> string" where
  "show_int n = (if n < 0 then CHR ''-'' # digits_of (- n) else digits_of n)"

definition two_digits :: "int \<Rightarrow> string" where
  "two_digits n = [digit_char (n div 10 mod 10), digit_char (n mod 10)]"

definition three_digits :: "int \<Rightarrow> string" where
  "three_digits n = digit_char (n div 100 mod 10) # two_digits n"

definition four_digits :: "int \<Rightarrow> string" where
  "four_digits n = digit_char (n div 1000 mod 10) # three_digits n"

definition six_digits :: "int \<Rightarrow> string" where
  "six_digits n = two_digits (n div 10000) @ four_digits n"

text \<open>
  A \<^verbatim>\<open>Date\<close> is its time value: milliseconds since 1970-01-01T00:00:00Z. The calendar
  date of a day number is computed in the proleptic Gregorian calendar, as ECMAScript does.
\<close>

definition civil_from_days :: "int \<Rightarrow> int \<times> int \<times> int" where
  "civil_from_days z0 =
     (let z = z0 + 719468;
          era = z div 146097;
          doe = z mod 146097;
          yoe = (doe - doe div 1460 + doe div 36524 - doe div 146096) div 365;
          doy = doe - (365 * yoe + yoe div 4 - yoe div 100);
          mp = (5 * doy + 2) div 153;
          d = doy - (153 * mp + 2) div 5 + 1;
          m = (if mp < 10 then mp + 3 else mp - 9);
          y = yoe + era * 400 + (if m \<le> 2 then 1 else 0)
      in (y, m, d))"

definition year_string :: "int \<Rightarrow> string" where
  "year_string y = (if 0 \<le> y \<and> y \<le> 9999 then four_digits y
                    else (if y < 0 then CHR ''-'' else CHR ''+'') # six_digits \<bar>y\<bar>)"

definition toISOString :: "int \<Rightarrow> string" where
  "toISOString t =
     (case civil_from_days (t div 86400000) of (y, m, d) \<Rightarrow>
        (let ms = t mod 86400000 in
         year_string y @ ''-'' @ two_digits m @ ''-'' @ two_digits d @ ''T''
           @ two_digits (ms div 3600000) @ '':'' @ two_digits (ms div 60000 mod 60) @ '':''
           @ two_digits (ms div 1000 mod 60) @ ''.'' @ three_digits (ms mod 1000) @ ''Z''))"

subsection \<open>\<^verbatim>\<open>JSON.stringify\<close> of a flat object\<close>

datatype jval = JNull | JBool bool | JNum int | JStr string

definition json_escape :: "char \<Rightarrow> string" where
  "json_escape c =
     (let n = (of_char c :: int) in
      if n = 0x22 then [CHR 0x5C, CHR 0x22]
      else if n = 0x5C then [CHR 0x5C, CHR 0x5C]
      else if n = 8 then [CHR 0x5C, CHR ''b'']
      else if n = 12 then [CHR 0x5C, CHR ''f'']
      else if n = 10 then [CHR 0x5C, CHR ''n'']
      else if n = 13 then [CHR 0x5C, CHR ''r'']
      else if n = 9 then [CHR 0x5C, CHR ''t'']
      else if n < 32 then [CHR 0x5C, CHR ''u'', CHR ''0'', CHR ''0'', hexdigit (n div 16), hexdigit (n mod 16)]
      else [c])"

definition json_quote :: "string \<Rightarrow> string" where
  "json_quote s = [CHR 0x22] @ concat (map json_escape s) @ [CHR 0x22]"

fun stringify_value :: "jval \<Rightarrow> string" where
  "stringify_value JNull = ''null''"
| "stringify_value (JBool b) = (if b then ''true'' else ''false'')"
| "stringify_value (JNum n) = show_int n"
| "stringify_value (JStr s) = json_quote s"

fun join_commas :: "string list \<Rightarrow> string" where
  "join_commas [] = []"
| "join_commas [x] = x"
| "join_commas (x # y # r) = x @ '','' @ join_commas (y # r)"

definition JSON_stringify :: "(string \<times> jval) list \<Rightarrow> string" where
  "JSON_stringify obj =
     ''{'' @ join_commas (map (\<lambda>(k, v). json_quote k @ '':'' @ stringify_value v) obj) @ ''}''"

text \<open>
  How the driver hands column values to JavaScript, and how \<^verbatim>\<open>JSON.stringify\<close> then
  prints them: INTEGER as a number; TIMESTAMPTZ as a \<^verbatim>\<open>Date\<close>, printed through
  \<^verbatim>\<open>toJSON\<close> (the ISO string, or \<^verbatim>\<open>null\<close> outside the range of valid time values);
  BIGINT as its decimal text; NULL as \<^verbatim>\<open>null\<close>.
\<close>

definition date_toJSON :: "int \<Rightarrow> jval" where
  "date_toJSON t = (if \<bar>t\<bar> \<le> 8640000000000000 then JStr (toISOString t) else JNull)"

definition pg_bigint :: "int option \<Rightarrow> jval" where
  "pg_bigint v = (case v of None \<Rightarrow> JNull | Some n \<Rightarrow> JStr (show_int n))"

section \<open>The tables (sql/001, 003, 004, 005)\<close>

text \<open>
  Each table is the list of its rows in insertion order. Columns that are filled by a default
  and never read by the code below (surrogate keys of ballots and audit rows, creation
  timestamps) are left out. \<^verbatim>\<open>election_id\<close> was added by migration 003, which also
  fills it in for every older row, and every INSERT below supplies it.
\<close>

datatype token_status = ACTIVE | USED | REVOKED | EXPIRED

datatype registration_status = PENDING | APPROVED | REJECTED

record election =
  e_id :: int
  vote_open_at :: int
  vote_close_at :: int
  is_active :: bool

record registration =
  r_id :: int
  r_election_id :: int
  r_unit_id :: int
  r_email :: string
  r_status :: registration_status
  reviewed_at :: "int option"
  reviewed_by :: "int option"

record vote_token =
  t_id :: int
  t_election_id :: int
  t_registration_id :: int
  t_unit_id :: int
  token_hash :: string
  status :: token_status
  used_at :: "int option"
  issued_via :: string

text \<open>
  One record type serves \<^verbatim>\<open>votes\<close> and \<^verbatim>\<open>fiscal_votes\<close>: \<open>choice_id\<close> is the column
  \<^verbatim>\<open>candidate_id\<close> of the first and \<^verbatim>\<open>fiscal_list_id\<close> of the second. The three chain
  columns were added by the last migration without NOT NULL and without a default.
\<close>

record ballot =
  election_id :: int
  unit_id :: int
  choice_id :: int
  token_id :: int
  cast_at :: int
  ip :: "string option"
  user_agent :: "string option"
  chain_position :: "int option"
  previous_hash :: "string option"
  vote_hash :: "string option"

record seal =
  s_election_id :: int
  s_kind :: string
  global_hash :: string
  total_votes :: int

record audit_row =
  event :: string
  actor_admin_id :: "int option"
  a_unit_id :: "int option"
  a_registration_id :: "int option"
  a_token_id :: "int option"
  a_election_id :: "int option"
  meta_json :: "(string \<times> jval) list"

record db =
  elections :: "election list"
  registrations :: "registration list"
  vote_tokens :: "vote_token list"
  vote_tokens_id_seq :: int
  candidates :: "int list"
  fiscal_lists :: "int list"
  votes :: "ballot list"
  fiscal_votes :: "ballot list"
  election_seals :: "seal list"
  audit_log :: "audit_row list"

datatype pg_error =
    unique_violation
  | foreign_key_violation
  | invalid_text_representation
  | numeric_value_out_of_range

fun pg_code :: "pg_error \<Rightarrow> string" where
  "pg_code unique_violation = ''23505''"
| "pg_code foreign_key_violation = ''23503''"
| "pg_code invalid_text_representation = ''22P02''"
| "pg_code numeric_value_out_of_range = ''22003''"

text \<open>\<^verbatim>\<open>votes\<close>: \<^verbatim>\<open>UNIQUE(unit_id)\<close> (001_schema.sql), \<^verbatim>\<open>candidate_id REFERENCES candidates(id)\<close>.\<close>

definition insert_votes :: "db \<Rightarrow> ballot \<Rightarrow> pg_error + db" where
  "insert_votes d b =
     (if \<exists>r \<in> set (votes d). unit_id r = unit_id b then Inl unique_violation
      else if choice_id b \<notin> set (candidates d) then Inl foreign_key_violation
      else Inr (d\<lparr>votes := votes d @ [b]\<rparr>))"

text \<open>\<^verbatim>\<open>fiscal_votes\<close>: \<^verbatim>\<open>UNIQUE(election_id, unit_id)\<close>,
  \<^verbatim>\<open>fiscal_list_id REFERENCES fiscal_lists(id)\<close>.\<close>

definition insert_fiscal_votes :: "db \<Rightarrow> ballot \<Rightarrow> pg_error + db" where
  "insert_fiscal_votes d b =
     (if \<exists>r \<in> set (fiscal_votes d). election_id r = election_id b \<and> unit_id r = unit_id b
      then Inl unique_violation
      else if choice_id b \<notin> set (fiscal_lists d) then Inl foreign_key_violation
      else Inr (d\<lparr>fiscal_votes := fiscal_votes d @ [b]\<rparr>))"

section \<open>scripts/verify\_chain.mjs\<close>

text \<open>The two payload builders passed to \<^verbatim>\<open>verifyTable\<close>.\<close>

definition council_payload :: "ballot \<Rightarrow> string \<Rightarrow> (string \<times> jval) list" where
  "council_payload r previous_hash' =
     [(''election_id'', JNum (election_id r)),
      (''unit_id'', JNum (unit_id r)),
      (''candidate_id'', JNum (choice_id r)),
      (''token_id'', JNum (token_id r)),
      (''cast_at'', date_toJSON (cast_at r)),
      (''previous_hash'', JStr previous_hash'),
      (''chain_position'', pg_bigint (chain_position r))]"

definition fiscal_payload :: "ballot \<Rightarrow> string \<Rightarrow> (string \<times> jval) list" where
  "fiscal_payload r previous_hash' =
     [(''election_id'', JNum (election_id r)),
      (''unit_id'', JNum (unit_id r)),
      (''fiscal_list_id'', JNum (choice_id r)),
      (''token_id'', JNum (token_id r)),
      (''cast_at'', date_toJSON (cast_at r)),
      (''previous_hash'', JStr previous_hash'),
      (''chain_position'', pg_bigint (chain_position r))]"

text \<open>
  \<^verbatim>\<open>SELECT * FROM table WHERE election_id=$1 ORDER BY chain_position ASC\<close>. PostgreSQL
  puts NULL positions last; rows with equal positions keep their table order here.
\<close>

definition position_key :: "ballot \<Rightarrow> int" where
  "position_key r = (case chain_position r of None \<Rightarrow> 0 | Some p \<Rightarrow> p)"

definition select_chain :: "ballot list \<Rightarrow> int \<Rightarrow> ballot list" where
  "select_chain tbl electionId =
     sort_key position_key (filter (\<lambda>r. election_id r = electionId \<and> chain_position r \<noteq> None) tbl)
       @ filter (\<lambda>r. election_id r = electionId \<and> chain_position r = None) tbl"

text \<open>The errors the script throws, each with the \<^verbatim>\<open>chain_position\<close> it prints.\<close>

datatype verify_error =
    Cadena_rota "int option"
  | Hash_invalido "int option"
  | Hash_global_no_coincide

datatype seal_check = No_hay_sello | Sello_coincide

text \<open>The \<^verbatim>\<open>for (const r of rows)\<close> loop, started with
  \<^verbatim>\<open>prevHash = "GENESIS"\<close> and \<^verbatim>\<open>concatenated = ""\<close>.\<close>

fun walk :: "(ballot \<Rightarrow> string \<Rightarrow> (string \<times> jval) list) \<Rightarrow> string \<Rightarrow> string \<Rightarrow> ballot list
    \<Rightarrow> verify_error + (string \<times> string)" where
  "walk payloadBuilder prevHash concatenated [] = Inr (prevHash, concatenated)"
| "walk payloadBuilder prevHash concatenated (r # rows) =
     (if previous_hash r \<noteq> Some prevHash then Inl (Cadena_rota (chain_position r))
      else (case vote_hash r of
              None \<Rightarrow> Inl (Hash_invalido (chain_position r))
            | Some h \<Rightarrow>
                if sha256Hex (JSON_stringify (payloadBuilder r prevHash)) \<noteq> h
                then Inl (Hash_invalido (chain_position r))
                else walk payloadBuilder h (concatenated @ h) rows))"

text \<open>\<^verbatim>\<open>SELECT global_hash FROM election_seals WHERE election_id=$1 AND kind=$2\<close>, then
  \<^verbatim>\<open>rows[0]\<close>.\<close>

definition select_seal :: "seal list \<Rightarrow> int \<Rightarrow> string \<Rightarrow> seal option" where
  "select_seal seals electionId kind =
     find (\<lambda>s. s_election_id s = electionId \<and> s_kind s = kind) seals"

definition verifyTable :: "seal list \<Rightarrow> ballot list \<Rightarrow> (ballot \<Rightarrow> string \<Rightarrow> (string \<times> jval) list)
    \<Rightarrow> string \<Rightarrow> int \<Rightarrow> verify_error + (seal_check \<times> string)" where
  "verifyTable seals tbl payloadBuilder kind electionId =
     (case walk payloadBuilder ''GENESIS'' [] (select_chain tbl electionId) of
        Inl e \<Rightarrow> Inl e
      | Inr (prevHash, concatenated) \<Rightarrow>
          (let globalHash = sha256Hex concatenated in
           case select_seal seals electionId kind of
             None \<Rightarrow> Inr (No_hay_sello, globalHash)
           | Some s \<Rightarrow>
               if global_hash s \<noteq> globalHash then Inl Hash_global_no_coincide
               else Inr (Sello_coincide, globalHash)))"

text \<open>The script's main block: the council chain, then the fiscal chain; the first error
  ends the run with exit code 1.\<close>

datatype verify_exit =
    Exit_usage
  | Exit_error verify_error
  | Exit_ok "seal_check \<times> string" "seal_check \<times> string"

definition verify_chain :: "db \<Rightarrow> int \<Rightarrow> verify_exit" where
  "verify_chain d electionId =
     (if electionId = 0 then Exit_usage
      else (case verifyTable (election_seals d) (votes d) council_payload ''COUNCIL'' electionId of
              Inl e \<Rightarrow> Exit_error e
            | Inr c \<Rightarrow>
               (case verifyTable (election_seals d) (fiscal_votes d) fiscal_payload ''FISCAL'' electionId of
                  Inl e \<Rightarrow> Exit_error e
                | Inr f \<Rightarrow> Exit_ok c f)))"

section \<open>middleware.js\<close>

record admin_session =
  admin_id :: int
  email :: string
  role :: string

record session =
  admin :: "admin_session option"

datatype mw_result = Next | Redirect_to string

text \<open>\<^verbatim>\<open>req.session?.admin?.id\<close> is truthy: the session and its admin exist and the id,
  a number, is not 0.\<close>

definition truthy_admin_id :: "session option \<Rightarrow> bool" where
  "truthy_admin_id s =
     (case s of None \<Rightarrow> False
      | Some ss \<Rightarrow> (case admin ss of None \<Rightarrow> False | Some a \<Rightarrow> admin_id a \<noteq> 0))"

definition requireAdmin :: "session option \<Rightarrow> mw_result" where
  "requireAdmin s = (if truthy_admin_id s then Next else Redirect_to ''/admin/login'')"

definition requireViewerOrAdmin :: "session option \<Rightarrow> mw_result" where
  "requireViewerOrAdmin s = (if truthy_admin_id s then Next else Redirect_to ''/admin/login'')"

section \<open>server.js: casting and viewing a ballot\<close>

text \<open>
  What the handlers read from outside the database: the environment variable
  \<^verbatim>\<open>TOKEN_SECRET\<close>, the server's clock (\<^verbatim>\<open>now()\<close>) and the database's clock
  (\<^verbatim>\<open>NOW()\<close>), both in milliseconds.
\<close>

record ctx =
  TOKEN_SECRET :: string
  js_now :: int
  pg_now :: int

text \<open>
  A form field as the handler uses it: \<open>Absent\<close> is any falsy value (the test
  \<^verbatim>\<open>if (!candidate_id)\<close>); \<open>Not_numeric\<close> is a truthy value that \<^verbatim>\<open>Number\<close> does not
  turn into an integer; \<open>Numeric n\<close> is a truthy value with \<^verbatim>\<open>Number(...) = n\<close>.
\<close>

datatype form_field = Absent | Not_numeric | Numeric int

record vote_request =
  token :: string
  choice :: form_field
  req_ip :: "string option"
  req_user_agent :: "string option"

datatype view =
    vote_used | closed | vote_preview | vote_council | vote_fiscal | vote_done | admin_link_issued

datatype message =
    No_hay_eleccion_activa
  | Elige_una_lista
  | Elige_una_lista_de_fiscales
  | Enlace_invalido
  | Error_registrando_voto
  | Error_registrando_voto_fiscal
  | Solo_se_reemite_si_esta_aprobado

text \<open>\<open>Unhandled\<close>: a database error that no \<^verbatim>\<open>catch\<close> of the handler receives.\<close>

datatype response = Render view | Redirect string | Send nat message | Unhandled pg_error

definition hashToken :: "string \<Rightarrow> string \<Rightarrow> string" where
  "hashToken secret tok = sha256Hex (tok @ secret)"

definition getActiveElection :: "db \<Rightarrow> election option" where
  "getActiveElection d = find is_active (elections d)"

definition inWindow :: "int \<Rightarrow> int \<Rightarrow> int \<Rightarrow> bool" where
  "inWindow n start end' = (n \<ge> start \<and> n \<le> end')"

text \<open>\<^verbatim>\<open>SELECT * FROM vote_tokens WHERE token_hash=$1 AND election_id=$2 FOR UPDATE\<close>,
  then \<^verbatim>\<open>t.rows[0]\<close>.\<close>

definition select_token :: "db \<Rightarrow> string \<Rightarrow> int \<Rightarrow> vote_token option" where
  "select_token d tokenHash electionId =
     find (\<lambda>t. token_hash t = tokenHash \<and> t_election_id t = electionId) (vote_tokens d)"

text \<open>The same with \<^verbatim>\<open>JOIN registrations r ON r.id = vt.registration_id\<close> (the GET route).\<close>

definition select_token_registrant :: "db \<Rightarrow> string \<Rightarrow> int \<Rightarrow> vote_token option" where
  "select_token_registrant d tokenHash electionId =
     find (\<lambda>t. token_hash t = tokenHash \<and> t_election_id t = electionId
               \<and> (\<exists>r \<in> set (registrations d). r_id r = t_registration_id t)) (vote_tokens d)"

text \<open>A query parameter bound to an INTEGER column.\<close>

fun pg_int4 :: "form_field \<Rightarrow> pg_error + int" where
  "pg_int4 Absent = Inl invalid_text_representation"
| "pg_int4 Not_numeric = Inl invalid_text_representation"
| "pg_int4 (Numeric n) =
     (if - 2147483648 \<le> n \<and> n \<le> 2147483647 then Inr n else Inl numeric_value_out_of_range)"

text \<open>The row that \<^verbatim>\<open>INSERT INTO votes(election_id, unit_id, candidate_id, token_id, ip,
  user_agent)\<close> (and its twin on \<^verbatim>\<open>fiscal_votes\<close>) writes: \<^verbatim>\<open>cast_at\<close> takes its default
  \<^verbatim>\<open>NOW()\<close>, the chain columns are not named and stay NULL.\<close>

definition new_ballot :: "ctx \<Rightarrow> int \<Rightarrow> vote_token \<Rightarrow> int \<Rightarrow> vote_request \<Rightarrow> ballot" where
  "new_ballot c electionId vt n req =
     \<lparr>election_id = electionId, unit_id = t_unit_id vt, choice_id = n, token_id = t_id vt,
      cast_at = pg_now c, ip = req_ip req,
      user_agent = Some (case req_user_agent req of None \<Rightarrow> [] | Some ua \<Rightarrow> ua),
      chain_position = None, previous_hash = None, vote_hash = None\<rparr>"

definition audit :: "db \<Rightarrow> audit_row \<Rightarrow> db" where
  "audit d row = d\<lparr>audit_log := audit_log d @ [row]\<rparr>"

text \<open>\<^verbatim>\<open>SELECT 1 FROM votes WHERE election_id=$1 AND unit_id=$2 LIMIT 1\<close> returned a row.\<close>

definition has_vote :: "ballot list \<Rightarrow> int \<Rightarrow> int \<Rightarrow> bool" where
  "has_vote tbl electionId unitId = (\<exists>r \<in> set tbl. election_id r = electionId \<and> unit_id r = unitId)"

text \<open>\<^verbatim>\<open>UPDATE vote_tokens SET status='USED', used_at=NOW() WHERE id=$1\<close>\<close>

definition set_used :: "db \<Rightarrow> int \<Rightarrow> int \<Rightarrow> db" where
  "set_used d tokenId t =
     d\<lparr>vote_tokens := map (\<lambda>r. if t_id r = tokenId then r\<lparr>status := USED, used_at := Some t\<rparr> else r)
                          (vote_tokens d)\<rparr>"

text \<open>The \<^verbatim>\<open>catch\<close> blocks of the two POST routes, after their \<^verbatim>\<open>ROLLBACK\<close>.\<close>

definition council_catch :: "pg_error \<Rightarrow> response" where
  "council_catch e = (if pg_code e = ''23505'' then Render vote_used else Send 500 Error_registrando_voto)"

definition fiscal_catch :: "vote_request \<Rightarrow> pg_error \<Rightarrow> response" where
  "fiscal_catch req e =
     (if pg_code e = ''23505'' then Redirect (''/votar/'' @ token req)
      else Send 500 Error_registrando_voto_fiscal)"

text \<open>
  \<^verbatim>\<open>POST /votar/:token\<close>. The statements between \<^verbatim>\<open>BEGIN\<close> and \<^verbatim>\<open>COMMIT\<close> work on a
  copy of the state; every \<^verbatim>\<open>ROLLBACK\<close> branch returns the state the handler started from.
\<close>

definition post_votar :: "ctx \<Rightarrow> db \<Rightarrow> vote_request \<Rightarrow> response \<times> db" where
  "post_votar c d req =
     (case getActiveElection d of
        None \<Rightarrow> (Send 500 No_hay_eleccion_activa, d)
      | Some election \<Rightarrow>
          if \<not> inWindow (js_now c) (vote_open_at election) (vote_close_at election)
          then (Render closed, d)
          else if choice req = Absent then (Send 400 Elige_una_lista, d)
          else
            (case select_token d (hashToken (TOKEN_SECRET c) (token req)) (e_id election) of
               None \<Rightarrow> (Send 404 Enlace_invalido, d)
             | Some vt \<Rightarrow>
                 if status vt \<noteq> ACTIVE then (Render vote_used, d)
                 else
                   (case pg_int4 (choice req) of
                      Inl e \<Rightarrow> (council_catch e, d)
                    | Inr n \<Rightarrow>
                        (case insert_votes d (new_ballot c (e_id election) vt n req) of
                           Inl e \<Rightarrow> (council_catch e, d)
                         | Inr d' \<Rightarrow>
                             (Redirect (''/votar/'' @ token req),
                              audit d' \<lparr>event = ''VOTE_CAST'', actor_admin_id = None,
                                        a_unit_id = Some (t_unit_id vt), a_registration_id = None,
                                        a_token_id = Some (t_id vt),
                                        a_election_id = Some (e_id election),
                                        meta_json = [(''candidate_id'', JNum n)]\<rparr>)))))"

text \<open>\<^verbatim>\<open>POST /votar/:token/fiscales\<close>\<close>

definition post_votar_fiscales :: "ctx \<Rightarrow> db \<Rightarrow> vote_request \<Rightarrow> response \<times> db" where
  "post_votar_fiscales c d req =
     (case getActiveElection d of
        None \<Rightarrow> (Send 500 No_hay_eleccion_activa, d)
      | Some election \<Rightarrow>
          if \<not> inWindow (js_now c) (vote_open_at election) (vote_close_at election)
          then (Render vote_preview, d)
          else if choice req = Absent then (Send 400 Elige_una_lista_de_fiscales, d)
          else
            (case select_token d (hashToken (TOKEN_SECRET c) (token req)) (e_id election) of
               None \<Rightarrow> (Send 404 Enlace_invalido, d)
             | Some vt \<Rightarrow>
                 if status vt \<noteq> ACTIVE then (Render vote_used, d)
                 else
                   (case pg_int4 (choice req) of
                      Inl e \<Rightarrow> (fiscal_catch req e, d)
                    | Inr n \<Rightarrow>
                        (case insert_fiscal_votes d (new_ballot c (e_id election) vt n req) of
                           Inl e \<Rightarrow> (fiscal_catch req e, d)
                         | Inr d1 \<Rightarrow>
                             (let hasCouncil = has_vote (votes d1) (e_id election) (t_unit_id vt);
                                  d2 = (if hasCouncil then set_used d1 (t_id vt) (pg_now c) else d1);
                                  d3 = audit d2 \<lparr>event = ''FISCAL_VOTE_CAST'', actor_admin_id = None,
                                        a_unit_id = Some (t_unit_id vt), a_registration_id = None,
                                        a_token_id = Some (t_id vt),
                                        a_election_id = Some (e_id election),
                                        meta_json = [(''fiscal_list_id'', JNum n)]\<rparr>
                              in (if \<not> hasCouncil then Redirect (''/votar/'' @ token req)
                                  else Render vote_done, d3))))))"

text \<open>\<^verbatim>\<open>GET /votar/:token\<close>\<close>

definition get_votar :: "ctx \<Rightarrow> db \<Rightarrow> string \<Rightarrow> response \<times> db" where
  "get_votar c d tok =
     (case getActiveElection d of
        None \<Rightarrow> (Send 500 No_hay_eleccion_activa, d)
      | Some election \<Rightarrow>
          (case select_token_registrant d (hashToken (TOKEN_SECRET c) tok) (e_id election) of
             None \<Rightarrow> (Send 404 Enlace_invalido, d)
           | Some vt \<Rightarrow>
               if \<not> inWindow (js_now c) (vote_open_at election) (vote_close_at election)
               then (Render vote_preview, d)
               else
                 (let hasCouncil = has_vote (votes d) (e_id election) (t_unit_id vt);
                      hasFiscal = has_vote (fiscal_votes d) (e_id election) (t_unit_id vt)
                  in if hasCouncil \<and> hasFiscal
                     then (Render vote_used,
                           if status vt = ACTIVE then set_used d (t_id vt) (pg_now c) else d)
                     else if \<not> hasCouncil then (Render vote_council, d)
                     else (Render vote_fiscal, d))))"

section \<open>server.js: issuing credentials\<close>

datatype mail_result = Mail_returned bool | Mail_threw string

text \<open>An admin request: the session, \<^verbatim>\<open>Number(req.params.id)\<close>, what \<^verbatim>\<open>newToken()\<close>
  draws, and what \<^verbatim>\<open>sendVoteLink\<close> does.\<close>

record admin_request =
  a_session :: "session option"
  a_id :: int
  drawn_token :: string
  mail :: mail_result

definition session_admin_id :: "session option \<Rightarrow> int option" where
  "session_admin_id s =
     (case s of None \<Rightarrow> None
      | Some ss \<Rightarrow> (case admin ss of None \<Rightarrow> None | Some a \<Rightarrow> Some (admin_id a)))"

text \<open>\<^verbatim>\<open>UPDATE vote_tokens SET status='REVOKED' WHERE election_id=$1 AND unit_id=$2 AND
  status='ACTIVE'\<close>\<close>

definition revoke_active :: "db \<Rightarrow> int \<Rightarrow> int \<Rightarrow> db" where
  "revoke_active d electionId unitId =
     d\<lparr>vote_tokens :=
         map (\<lambda>t. if t_election_id t = electionId \<and> t_unit_id t = unitId \<and> status t = ACTIVE
                   then t\<lparr>status := REVOKED\<rparr> else t) (vote_tokens d)\<rparr>"

text \<open>
  \<^verbatim>\<open>INSERT INTO vote_tokens(election_id, registration_id, unit_id, token_hash, issued_via)
  VALUES ($1,$2,$3,$4,'EMAIL') RETURNING id\<close>: the id comes from the sequence, which moves on
  even when the row is refused by \<^verbatim>\<open>token_hash TEXT NOT NULL UNIQUE\<close>.
\<close>

definition insert_vote_token :: "db \<Rightarrow> int \<Rightarrow> int \<Rightarrow> int \<Rightarrow> string \<Rightarrow> (pg_error + int) \<times> db" where
  "insert_vote_token d electionId registrationId unitId tokenHash =
     (let new_id = vote_tokens_id_seq d + 1;
          d1 = d\<lparr>vote_tokens_id_seq := new_id\<rparr>
      in if \<exists>t \<in> set (vote_tokens d). token_hash t = tokenHash then (Inl unique_violation, d1)
         else (Inr new_id,
               d1\<lparr>vote_tokens := vote_tokens d @
                     [\<lparr>t_id = new_id, t_election_id = electionId, t_registration_id = registrationId,
                       t_unit_id = unitId, token_hash = tokenHash, status = ACTIVE, used_at = None,
                       issued_via = ''EMAIL''\<rparr>]\<rparr>))"

definition mail_audit :: "admin_request \<Rightarrow> int \<Rightarrow> int \<Rightarrow> int \<Rightarrow> int \<Rightarrow> (string \<times> jval) list \<Rightarrow> audit_row" where
  "mail_audit req electionId registrationId unitId tokenId extra =
     (case mail req of
        Mail_returned sent \<Rightarrow>
          \<lparr>event = ''TOKEN_EMAIL_SENT'', actor_admin_id = session_admin_id (a_session req),
           a_unit_id = Some unitId, a_registration_id = Some registrationId,
           a_token_id = Some tokenId, a_election_id = Some electionId,
           meta_json = (''sent'', JBool sent) # extra\<rparr>
      | Mail_threw err \<Rightarrow>
          \<lparr>event = ''TOKEN_EMAIL_FAILED'', actor_admin_id = session_admin_id (a_session req),
           a_unit_id = Some unitId, a_registration_id = Some registrationId,
           a_token_id = Some tokenId, a_election_id = Some electionId,
           meta_json = (''error'', JStr err) # extra\<rparr>)"

text \<open>\<^verbatim>\<open>POST /admin/solicitudes/:id/aprobar\<close>. Its statements run outside any transaction,
  each committed on its own.\<close>

definition post_aprobar :: "ctx \<Rightarrow> db \<Rightarrow> admin_request \<Rightarrow> response \<times> db" where
  "post_aprobar c d req =
     (case requireAdmin (a_session req) of
        Redirect_to u \<Rightarrow> (Redirect u, d)
      | Next \<Rightarrow>
          (case getActiveElection d of
             None \<Rightarrow> (Send 500 No_hay_eleccion_activa, d)
           | Some active \<Rightarrow>
               (case filter (\<lambda>r. r_id r = a_id req \<and> r_election_id r = e_id active
                                  \<and> r_status r = PENDING) (registrations d) of
                  [] \<Rightarrow> (Redirect (''/admin/solicitudes/'' @ show_int (a_id req)), d)
                | r # _ \<Rightarrow>
                    (let d1 = d\<lparr>registrations :=
                                 map (\<lambda>x. if r_id x = a_id req \<and> r_election_id x = e_id active
                                              \<and> r_status x = PENDING
                                           then x\<lparr>r_status := APPROVED, reviewed_at := Some (pg_now c),
                                                  reviewed_by := session_admin_id (a_session req)\<rparr>
                                           else x) (registrations d)\<rparr>;
                         d2 = revoke_active d1 (e_id active) (r_unit_id r)
                     in case insert_vote_token d2 (e_id active) (a_id req) (r_unit_id r)
                               (hashToken (TOKEN_SECRET c) (drawn_token req)) of
                          (Inl e, d3) \<Rightarrow> (Unhandled e, d3)
                        | (Inr tokenId, d3) \<Rightarrow>
                            (Render admin_link_issued,
                             audit
                               (audit d3
                                  \<lparr>event = ''REGISTRATION_APPROVED_TOKEN_ISSUED'',
                                   actor_admin_id = session_admin_id (a_session req),
                                   a_unit_id = Some (r_unit_id r),
                                   a_registration_id = Some (a_id req),
                                   a_token_id = Some tokenId, a_election_id = Some (e_id active),
                                   meta_json = [(''issued_via'', JStr ''EMAIL'')]\<rparr>)
                               (mail_audit req (e_id active) (a_id req) (r_unit_id r) tokenId []))))))"

text \<open>\<^verbatim>\<open>POST /admin/solicitudes/:id/reemitir\<close>\<close>

definition post_reemitir :: "ctx \<Rightarrow> db \<Rightarrow> admin_request \<Rightarrow> response \<times> db" where
  "post_reemitir c d req =
     (case requireAdmin (a_session req) of
        Redirect_to u \<Rightarrow> (Redirect u, d)
      | Next \<Rightarrow>
          (case getActiveElection d of
             None \<Rightarrow> (Send 500 No_hay_eleccion_activa, d)
           | Some active \<Rightarrow>
               (case find (\<lambda>r. r_id r = a_id req \<and> r_election_id r = e_id active
                                \<and> r_status r = APPROVED) (registrations d) of
                  None \<Rightarrow> (Send 400 Solo_se_reemite_si_esta_aprobado, d)
                | Some reg \<Rightarrow>
                    (let d2 = revoke_active d (e_id active) (r_unit_id reg)
                     in case insert_vote_token d2 (e_id active) (r_id reg) (r_unit_id reg)
                               (hashToken (TOKEN_SECRET c) (drawn_token req)) of
                          (Inl e, d3) \<Rightarrow> (Unhandled e, d3)
                        | (Inr tokenId, d3) \<Rightarrow>
                            (Render admin_link_issued,
                             audit
                               (audit d3
                                  \<lparr>event = ''TOKEN_REISSUED'',
                                   actor_admin_id = session_admin_id (a_session req),
                                   a_unit_id = Some (r_unit_id reg),
                                   a_registration_id = Some (r_id reg),
                                   a_token_id = Some tokenId, a_election_id = Some (e_id active),
                                   meta_json = []\<rparr>)
                               (mail_audit req (e_id active) (r_id reg) (r_unit_id reg) tokenId
                                  [(''reissue'', JBool True)]))))))"

section \<open>What a verification run is measured against\<close>

text \<open>
  The conditions of the chain, stated on the rows in the order the script reads them:
  record \<open>i\<close> is linked when its stored previous digest is the stored digest of the record
  before it (\<^verbatim>\<open>GENESIS\<close> for the first), and its digest is right when the stored digest is
  the SHA-256 of the payload built from its stored columns. \<open>stored_hash\<close> is what
  \<^verbatim>\<open>concatenated += r.vote_hash\<close> appends. \<open>fails_at\<close> names the first record that breaks
  one of the two conditions, with the error the script throws there. A \<open>mutation\<close> rewrites
  one column of one stored row.
\<close>

definition stored_hash :: "ballot \<Rightarrow> string" where
  "stored_hash r = (case vote_hash r of None \<Rightarrow> ''null'' | Some h \<Rightarrow> h)"

definition concatenated_hashes :: "ballot list \<Rightarrow> string" where
  "concatenated_hashes rows = concat (map stored_hash rows)"

definition link_ok :: "ballot list \<Rightarrow> nat \<Rightarrow> bool" where
  "link_ok rows i =
     (previous_hash (rows ! i) = (if i = 0 then Some ''GENESIS'' else vote_hash (rows ! (i - 1))))"

definition digest_ok :: "(ballot \<Rightarrow> string \<Rightarrow> (string \<times> jval) list) \<Rightarrow> ballot list \<Rightarrow> nat \<Rightarrow> bool" where
  "digest_ok pb rows i =
     (case previous_hash (rows ! i) of
        None \<Rightarrow> False
      | Some p \<Rightarrow> vote_hash (rows ! i) = Some (sha256Hex (JSON_stringify (pb (rows ! i) p))))"

definition records_ok :: "(ballot \<Rightarrow> string \<Rightarrow> (string \<times> jval) list) \<Rightarrow> ballot list \<Rightarrow> nat \<Rightarrow> bool" where
  "records_ok pb rows n = (\<forall>j<n. link_ok rows j \<and> digest_ok pb rows j)"

definition fails_at :: "(ballot \<Rightarrow> string \<Rightarrow> (string \<times> jval) list) \<Rightarrow> ballot list \<Rightarrow> nat
    \<Rightarrow> verify_error \<Rightarrow> bool" where
  "fails_at pb rows i e =
     (records_ok pb rows i
      \<and> ((\<not> link_ok rows i \<and> e = Cadena_rota (chain_position (rows ! i)))
         \<or> (link_ok rows i \<and> \<not> digest_ok pb rows i
             \<and> e = Hash_invalido (chain_position (rows ! i)))))"

datatype mutation =
    Set_choice_id int
  | Set_cast_at int
  | Set_previous_hash string
  | Set_vote_hash string

fun mutate :: "mutation \<Rightarrow> ballot \<Rightarrow> ballot" where
  "mutate (Set_choice_id x) r = r\<lparr>choice_id := x\<rparr>"
| "mutate (Set_cast_at x) r = r\<lparr>cast_at := x\<rparr>"
| "mutate (Set_previous_hash x) r = r\<lparr>previous_hash := Some x\<rparr>"
| "mutate (Set_vote_hash x) r = r\<lparr>vote_hash := Some x\<rparr>"

definition tamper :: "ballot \<Rightarrow> mutation \<Rightarrow> ballot list \<Rightarrow> ballot list" where
  "tamper r0 m tbl = map (\<lambda>r. if r = r0 then mutate m r else r) tbl"

fun payload_mutation :: "mutation \<Rightarrow> bool" where
  "payload_mutation (Set_choice_id x) = True"
| "payload_mutation (Set_cast_at x) = True"
| "payload_mutation (Set_previous_hash x) = False"
| "payload_mutation (Set_vote_hash x) = False"

fun reported :: "mutation \<Rightarrow> int option \<Rightarrow> verify_error" where
  "reported (Set_previous_hash x) p = Cadena_rota p"
| "reported (Set_choice_id x) p = Hash_invalido p"
| "reported (Set_cast_at x) p = Hash_invalido p"
| "reported (Set_vote_hash x) p = Hash_invalido p"

definition recomputed_digest :: "(ballot \<Rightarrow> string \<Rightarrow> (string \<times> jval) list) \<Rightarrow> ballot \<Rightarrow> string option" where
  "recomputed_digest pb r =
     (case previous_hash r of None \<Rightarrow> None
      | Some p \<Rightarrow> Some (sha256Hex (JSON_stringify (pb r p))))"

definition last_digest :: "ballot list \<Rightarrow> string" where
  "last_digest rows = (if rows = [] then ''GENESIS'' else stored_hash (last rows))"

section \<open>The middleware guards\<close>

text \<open>
  C9. The admin-only check and the viewer-or-admin check are extensionally equal: for every
  request session, \<open>requireViewerOrAdmin\<close> lets the request through if and only if
  \<open>requireAdmin\<close> does, and both do so exactly when the session carries a (truthy) admin
  id; the role stored in the session plays no part.
\<close>

theorem requireViewerOrAdmin_eq_requireAdmin:
  "requireViewerOrAdmin s = requireAdmin s
   \<and> (requireAdmin s = Next) = truthy_admin_id s
   \<and> (requireViewerOrAdmin s = Next) = truthy_admin_id s"
  by (simp add: requireAdmin_def requireViewerOrAdmin_def)

theorem requireViewerOrAdmin_eq_requireAdmin_witness:
  "requireViewerOrAdmin (Some \<lparr>admin = Some \<lparr>admin_id = 4, email = ''a@b.pe'', role = ''viewer''\<rparr>\<rparr>) = Next
   \<and> requireAdmin (Some \<lparr>admin = Some \<lparr>admin_id = 4, email = ''a@b.pe'', role = ''viewer''\<rparr>\<rparr>) = Next
   \<and> requireViewerOrAdmin (Some \<lparr>admin = None\<rparr>) = requireAdmin (Some \<lparr>admin = None\<rparr>)"
  using requireViewerOrAdmin_eq_requireAdmin
          [of "Some \<lparr>admin = Some \<lparr>admin_id = 4, email = ''a@b.pe'', role = ''viewer''\<rparr>\<rparr>"]
        requireViewerOrAdmin_eq_requireAdmin [of "Some \<lparr>admin = None\<rparr>"]
  by (simp add: truthy_admin_id_def)

section \<open>The verifier\<close>

lemma walk_append:
  "walk pb p c (xs @ ys) =
     (case walk pb p c xs of Inl e \<Rightarrow> Inl e | Inr (p', c') \<Rightarrow> walk pb p' c' ys)"
  by (induction xs arbitrary: p c) (auto split: option.splits)

lemma walk_single:
  "walk pb p c [r] =
     (if previous_hash r \<noteq> Some p then Inl (Cadena_rota (chain_position r))
      else if vote_hash r \<noteq> Some (sha256Hex (JSON_stringify (pb r p)))
           then Inl (Hash_invalido (chain_position r))
      else Inr (sha256Hex (JSON_stringify (pb r p)), c @ sha256Hex (JSON_stringify (pb r p))))"
  by (auto split: option.splits)

lemma link_ok_snoc_less: "i < length rows \<Longrightarrow> link_ok (rows @ [r]) i = link_ok rows i"
  by (cases i) (simp_all add: link_ok_def nth_append)

lemma digest_ok_snoc_less:
  "i < length rows \<Longrightarrow> digest_ok pb (rows @ [r]) i = digest_ok pb rows i"
  by (simp add: digest_ok_def nth_append split: option.splits)

lemma records_ok_snoc_less:
  "n \<le> length rows \<Longrightarrow> records_ok pb (rows @ [r]) n = records_ok pb rows n"
  by (simp add: records_ok_def link_ok_snoc_less digest_ok_snoc_less)

lemma records_ok_last_hash:
  assumes "records_ok pb rows (length rows)" "rows \<noteq> []"
  shows "vote_hash (last rows) = Some (stored_hash (last rows))"
proof -
  have "length rows - 1 < length rows" using assms(2) by simp
  then have "digest_ok pb rows (length rows - 1)"
    using assms(1) by (simp add: records_ok_def)
  then have "vote_hash (rows ! (length rows - 1)) \<noteq> None"
    by (auto simp: digest_ok_def split: option.splits)
  then show ?thesis
    using assms(2) by (auto simp: stored_hash_def last_conv_nth)
qed

lemma link_ok_snoc:
  assumes "records_ok pb rows (length rows)"
  shows "link_ok (rows @ [r]) (length rows) = (previous_hash r = Some (last_digest rows))"
proof (cases "rows = []")
  case True
  then show ?thesis by (simp add: link_ok_def last_digest_def)
next
  case False
  then have "vote_hash (last rows) = Some (stored_hash (last rows))"
    using assms records_ok_last_hash by blast
  then show ?thesis
    using False by (simp add: link_ok_def last_digest_def nth_append last_conv_nth)
qed

lemma digest_ok_snoc:
  "digest_ok pb (rows @ [r]) (length rows) =
     (case previous_hash r of None \<Rightarrow> False
      | Some p \<Rightarrow> vote_hash r = Some (sha256Hex (JSON_stringify (pb r p))))"
  by (simp add: digest_ok_def split: option.splits)

lemma last_digest_snoc: "last_digest (rows @ [r]) = stored_hash r"
  by (simp add: last_digest_def)

lemma concatenated_hashes_snoc:
  "concatenated_hashes (rows @ [r]) = concatenated_hashes rows @ stored_hash r"
  by (simp add: concatenated_hashes_def)

lemma records_ok_Suc:
  "records_ok pb rows (Suc n) = (records_ok pb rows n \<and> link_ok rows n \<and> digest_ok pb rows n)"
  by (auto simp: records_ok_def less_Suc_eq)

lemma walk_Inr:
  "walk pb ''GENESIS'' [] rows = Inr (p, c) \<longleftrightarrow>
     records_ok pb rows (length rows) \<and> p = last_digest rows \<and> c = concatenated_hashes rows"
proof (induction rows arbitrary: p c rule: rev_induct)
  case Nil
  then show ?case by (auto simp: records_ok_def last_digest_def concatenated_hashes_def)
next
  case (snoc r rows)
  show ?case
  proof (cases "walk pb ''GENESIS'' [] rows")
    case (Inl e)
    have "\<not> records_ok pb rows (length rows)"
    proof
      assume "records_ok pb rows (length rows)"
      then have "walk pb ''GENESIS'' [] rows = Inr (last_digest rows, concatenated_hashes rows)"
        using snoc.IH [of "last_digest rows" "concatenated_hashes rows"] by simp
      with Inl show False by simp
    qed
    then have "\<not> records_ok pb (rows @ [r]) (Suc (length rows))"
      by (simp add: records_ok_Suc records_ok_snoc_less)
    then show ?thesis using Inl by (simp add: walk_append)
  next
    case (Inr pc)
    obtain p0 c0 where pc: "pc = (p0, c0)" by (cases pc)
    have ok: "records_ok pb rows (length rows)" and p0: "p0 = last_digest rows"
      and c0: "c0 = concatenated_hashes rows"
      using snoc.IH [of p0 c0] Inr pc by auto
    have eq: "walk pb ''GENESIS'' [] (rows @ [r]) = walk pb p0 c0 [r]"
      using Inr pc by (simp add: walk_append)
    have R: "records_ok pb (rows @ [r]) (length (rows @ [r])) \<longleftrightarrow>
               previous_hash r = Some p0
               \<and> vote_hash r = Some (sha256Hex (JSON_stringify (pb r p0)))"
      using ok p0
      by (auto simp: records_ok_Suc records_ok_snoc_less link_ok_snoc digest_ok_snoc)
    show ?thesis
      unfolding eq R last_digest_snoc concatenated_hashes_snoc c0 [symmetric]
      by (simp only: walk_single) (auto simp: stored_hash_def)
  qed
qed


lemma fails_at_not_ok: "fails_at pb rows i e \<Longrightarrow> i < n \<Longrightarrow> \<not> records_ok pb rows n"
  by (auto simp: fails_at_def records_ok_def)

lemma fails_at_unique:
  assumes "fails_at pb rows i e" "fails_at pb rows i' e'"
  shows "i = i' \<and> e = e'"
proof -
  have "\<not> i < i'" using assms fails_at_not_ok [of pb rows i e i'] by (auto simp: fails_at_def)
  moreover have "\<not> i' < i" using assms fails_at_not_ok [of pb rows i' e' i] by (auto simp: fails_at_def)
  ultimately have "i = i'" by simp
  then show ?thesis using assms by (auto simp: fails_at_def)
qed

lemma fails_at_snoc_less:
  "i < length rows \<Longrightarrow> fails_at pb (rows @ [r]) i e = fails_at pb rows i e"
  by (simp add: fails_at_def records_ok_snoc_less link_ok_snoc_less digest_ok_snoc_less nth_append)

lemma fails_at_snoc_last:
  assumes "records_ok pb rows (length rows)"
  shows "fails_at pb (rows @ [r]) (length rows) e \<longleftrightarrow>
           walk pb (last_digest rows) c [r] = Inl e"
proof -
  have ok: "records_ok pb (rows @ [r]) (length rows)"
    using assms by (simp add: records_ok_snoc_less)
  show ?thesis
    unfolding fails_at_def
    by (simp only: ok link_ok_snoc [OF assms] digest_ok_snoc walk_single nth_append_length)
       (auto split: option.splits)
qed

lemma walk_Inl:
  "walk pb ''GENESIS'' [] rows = Inl e \<longleftrightarrow> (\<exists>i<length rows. fails_at pb rows i e)"
proof (induction rows arbitrary: e rule: rev_induct)
  case Nil
  then show ?case by simp
next
  case (snoc r rows)
  show ?case
  proof (cases "walk pb ''GENESIS'' [] rows")
    case (Inl e0)
    then obtain i where i: "i < length rows" "fails_at pb rows i e0"
      using snoc.IH [of e0] by auto
    then have f0: "fails_at pb (rows @ [r]) i e0"
      by (simp add: fails_at_snoc_less)
    have w: "walk pb ''GENESIS'' [] (rows @ [r]) = Inl e0"
      using Inl by (simp add: walk_append)
    show ?thesis
    proof
      assume "walk pb ''GENESIS'' [] (rows @ [r]) = Inl e"
      then have "e = e0" using w by simp
      moreover have "i < length (rows @ [r])" using i(1) by simp
      ultimately show "\<exists>j<length (rows @ [r]). fails_at pb (rows @ [r]) j e"
        using f0 by blast
    next
      assume "\<exists>j<length (rows @ [r]). fails_at pb (rows @ [r]) j e"
      then obtain j where "fails_at pb (rows @ [r]) j e" by blast
      then have "e = e0" using f0 fails_at_unique by blast
      then show "walk pb ''GENESIS'' [] (rows @ [r]) = Inl e" using w by simp
    qed
  next
    case (Inr pc)
    obtain p0 c0 where pc: "pc = (p0, c0)" by (cases pc)
    have ok: "records_ok pb rows (length rows)" and p0: "p0 = last_digest rows"
      using walk_Inr [of pb rows p0 c0] Inr pc by auto
    have eq: "walk pb ''GENESIS'' [] (rows @ [r]) = walk pb (last_digest rows) c0 [r]"
      using Inr pc p0 by (simp add: walk_append)
    have "(\<exists>j<length (rows @ [r]). fails_at pb (rows @ [r]) j e)
            \<longleftrightarrow> fails_at pb (rows @ [r]) (length rows) e"
    proof
      assume "\<exists>j<length (rows @ [r]). fails_at pb (rows @ [r]) j e"
      then obtain j where j: "j < Suc (length rows)" "fails_at pb (rows @ [r]) j e" by auto
      have "\<not> j < length rows"
      proof
        assume "j < length rows"
        then have "\<not> records_ok pb (rows @ [r]) (length rows)"
          using j(2) fails_at_not_ok by blast
        then show False using ok by (simp add: records_ok_snoc_less)
      qed
      then have "j = length rows" using j(1) by simp
      then show "fails_at pb (rows @ [r]) (length rows) e" using j(2) by simp
    next
      assume "fails_at pb (rows @ [r]) (length rows) e"
      then show "\<exists>j<length (rows @ [r]). fails_at pb (rows @ [r]) j e" by auto
    qed
    then show ?thesis
      unfolding eq using fails_at_snoc_last [OF ok, of r e c0] by simp
  qed
qed


lemma insort_key_map:
  assumes "\<And>y. k (g y) = k y"
  shows "insort_key k (g x) (map g ys) = map g (insort_key k x ys)"
  by (induction ys) (simp_all add: assms)

lemma sort_key_map:
  assumes "\<And>y. k (g y) = k y"
  shows "sort_key k (map g xs) = map g (sort_key k xs)"
  by (induction xs) (simp_all add: insort_key_map [of k g, OF assms])

lemma mutate_keeps [simp]:
  "election_id (mutate m r) = election_id r"
  "chain_position (mutate m r) = chain_position r"
  "unit_id (mutate m r) = unit_id r"
  "token_id (mutate m r) = token_id r"
  by (cases m; simp)+

lemma select_chain_tamper:
  "select_chain (tamper r0 m tbl) eid = tamper r0 m (select_chain tbl eid)"
proof -
  let ?g = "\<lambda>r. if r = r0 then mutate m r else r"
  have k: "\<And>y. position_key (?g y) = position_key y"
    by (simp add: position_key_def)
  have p1: "(\<lambda>r. election_id r = eid \<and> chain_position r \<noteq> None) \<circ> ?g
              = (\<lambda>r. election_id r = eid \<and> chain_position r \<noteq> None)"
    by (auto simp: fun_eq_iff)
  have p2: "(\<lambda>r. election_id r = eid \<and> chain_position r = None) \<circ> ?g
              = (\<lambda>r. election_id r = eid \<and> chain_position r = None)"
    by (auto simp: fun_eq_iff)
  show ?thesis
    unfolding select_chain_def tamper_def
    by (simp only: filter_map p1 p2 sort_key_map [of position_key ?g, OF k] map_append)
qed

lemma select_chain_set: "set (select_chain tbl eid) = {r \<in> set tbl. election_id r = eid}"
  by (auto simp: select_chain_def)

lemma select_chain_distinct: "distinct tbl \<Longrightarrow> distinct (select_chain tbl eid)"
  by (auto simp: select_chain_def distinct_sort)

lemma select_chain_sorted:
  "sorted (map position_key (filter (\<lambda>r. chain_position r \<noteq> None) (select_chain tbl eid)))"
proof -
  have "filter (\<lambda>r. chain_position r \<noteq> None) (select_chain tbl eid)
        = sort_key position_key (filter (\<lambda>r. election_id r = eid \<and> chain_position r \<noteq> None) tbl)"
    by (simp add: select_chain_def filter_sort cong: conj_cong)
  then show ?thesis by (simp add: sorted_sort_key)
qed

end
